theory Spec2Isabelle
  imports Main
begin

unbundle bit_operations_syntax

section \<open>The dungeon document\<close>

text \<open>
  The editor works on one document, \<^verbatim>\<open>this.yamlData.dungeon\<close>, a JavaScript object with the
  fields \<^verbatim>\<open>dimensions\<close>, \<^verbatim>\<open>grid\<close>, \<^verbatim>\<open>rooms\<close>, \<^verbatim>\<open>templates\<close>, \<^verbatim>\<open>resets\<close> and \<^verbatim>\<open>resetMessage\<close>.
  Coordinates are JavaScript numbers that the editor only ever fills with integers; they are
  \<open>int\<close> here because the flood fill and the layer inversion compute \<open>x - 1\<close> and
  \<open>layers - 1 - z\<close> and compare the result with \<open>0\<close>. A field that the code tests before use
  (\<^verbatim>\<open>dungeon.rooms\<close>, \<^verbatim>\<open>dungeon.resets\<close>, \<^verbatim>\<open>dungeon.templates\<close>, \<^verbatim>\<open>room.allowedExits\<close>,
  \<^verbatim>\<open>reset.maxCount\<close>) is an \<open>option\<close>, with \<open>None\<close> for \<^verbatim>\<open>undefined\<close>. The fields \<^verbatim>\<open>dimensions\<close>
  and \<^verbatim>\<open>grid\<close> are there in every document that loads: \<^verbatim>\<open>loadDungeonFromServer\<close> reads
  \<^verbatim>\<open>dungeon.dimensions.width\<close> and copies the grid through \<^verbatim>\<open>JSON\<close>, and both throw without them.

  The room list is tested in two places only (\<^verbatim>\<open>loadTemplates\<close> and \<^verbatim>\<open>cloneDungeonState\<close>). Every
  other place reads \<^verbatim>\<open>dungeon.rooms[...]\<close> or \<^verbatim>\<open>dungeon.rooms.length\<close> as it is, which on a document
  without a room list throws a \<^verbatim>\<open>TypeError\<close> that nothing catches. A function that returns a
  value then returns the error in its place (\<open>Inl\<close>); a handler stops at the throw, and the
  document it returns is the document as it was at that moment.
\<close>

datatype error = TypeError

record dimensions =
  width :: int
  height :: int
  layers :: int

record room =
  display :: string
  description :: string
  mapText :: "string option"
  mapColor :: "nat option"
  dense :: bool
  allowedExits :: "nat option"
  roomLinks :: "(string \<times> string) list"

record template =
  id_t :: string
  type_t :: string
  display_t :: string

record reset =
  templateId :: string
  roomRef :: string
  minCount :: "nat option"
  maxCount :: "nat option"
  equipped :: "string list option"
  inventory :: "string list option"

type_synonym grid = "nat list list list"

record dungeon =
  dimensions :: dimensions
  grid :: grid
  rooms :: "room list option"
  templates :: "template list option"
  resets :: "reset list option"
  resetMessage :: "string option"

type_synonym cell = "int \<times> int \<times> int"

subsection \<open>JavaScript array reads\<close>

text \<open>
  \<^verbatim>\<open>xs[i]\<close> is \<^verbatim>\<open>undefined\<close> outside \<open>0 \<le> i < length\<close>. The three reading idioms of the source are
  \<^verbatim>\<open>dungeon.grid[layerIndex] || []\<close>, \<^verbatim>\<open>layer[y] || []\<close> and \<^verbatim>\<open>row[x] || 0\<close>, always with
  \<^verbatim>\<open>layerIndex = dungeon.dimensions.layers - 1 - z\<close>.
\<close>

definition js_index :: "'a list \<Rightarrow> int \<Rightarrow> 'a option" where
  "js_index xs i = (if 0 \<le> i \<and> i < int (length xs) then Some (xs ! nat i) else None)"

definition layerIndex :: "dimensions \<Rightarrow> int \<Rightarrow> int" where
  "layerIndex d z = layers d - 1 - z"

definition layer_or_empty :: "dungeon \<Rightarrow> int \<Rightarrow> nat list list" where
  "layer_or_empty dg z =
     (case js_index (grid dg) (layerIndex (dimensions dg) z) of None \<Rightarrow> [] | Some l \<Rightarrow> l)"

definition row_or_empty :: "nat list list \<Rightarrow> int \<Rightarrow> nat list" where
  "row_or_empty layer y = (case js_index layer y of None \<Rightarrow> [] | Some r \<Rightarrow> r)"

definition roomIndex_at :: "dungeon \<Rightarrow> int \<Rightarrow> int \<Rightarrow> int \<Rightarrow> nat" where
  "roomIndex_at dg x y z =
     (case js_index (row_or_empty (layer_or_empty dg z) y) x of None \<Rightarrow> 0 | Some v \<Rightarrow> v)"

section \<open>Adjacency and exit analyzer\<close>

text \<open>
  \<^verbatim>\<open>getRoomAt\<close>: \<^verbatim>\<open>dungeon.rooms[roomIndex - 1] || null\<close> for a cell above \<open>0\<close>, and \<^verbatim>\<open>null\<close> for an
  empty cell, for which the room list is not read.
\<close>

definition getRoomAt :: "dungeon \<Rightarrow> int \<Rightarrow> int \<Rightarrow> int \<Rightarrow> error + room option" where
  "getRoomAt dg x y z =
     (let roomIndex = roomIndex_at dg x y z
      in if roomIndex > 0 then
           (case rooms dg of
              None \<Rightarrow> Inl TypeError
            | Some rs \<Rightarrow> Inr (js_index rs (int roomIndex - 1)))
         else Inr None)"

datatype direction = NORTH | SOUTH | EAST | WEST

fun DIRECTION :: "direction \<Rightarrow> nat" where
  "DIRECTION NORTH = 1"
| "DIRECTION SOUTH = 2"
| "DIRECTION EAST = 4"
| "DIRECTION WEST = 8"

text \<open>
  \<^verbatim>\<open>if (!room || !room.allowedExits) return false;\<close> and then the bit test. An unset bitmask
  and the bitmask \<open>0\<close> are both falsy.
\<close>

definition hasExit :: "room option \<Rightarrow> direction \<Rightarrow> bool" where
  "hasExit r dir =
     (case r of
        None \<Rightarrow> False
      | Some rm \<Rightarrow>
          (case allowedExits rm of
             None \<Rightarrow> False
           | Some a \<Rightarrow> if a = 0 then False else a AND DIRECTION dir \<noteq> 0))"

datatype indicator = Exit | OneWayExit | OneWayBlocked | Blocked | Link

record indicators =
  north :: "indicator option"
  south :: "indicator option"
  east :: "indicator option"
  west :: "indicator option"

fun dir_name :: "direction \<Rightarrow> string" where
  "dir_name NORTH = ''north''"
| "dir_name SOUTH = ''south''"
| "dir_name EAST = ''east''"
| "dir_name WEST = ''west''"

fun opposite :: "direction \<Rightarrow> direction" where
  "opposite NORTH = SOUTH"
| "opposite SOUTH = NORTH"
| "opposite EAST = WEST"
| "opposite WEST = EAST"

fun checkX :: "direction \<Rightarrow> int \<Rightarrow> int" where
  "checkX EAST x = x + 1"
| "checkX WEST x = x - 1"
| "checkX _ x = x"

fun checkY :: "direction \<Rightarrow> int \<Rightarrow> int" where
  "checkY NORTH y = y - 1"
| "checkY SOUTH y = y + 1"
| "checkY _ y = y"

text \<open>\<^verbatim>\<open>currentRoom.roomLinks && currentRoom.roomLinks[dir.name]\<close>: a non-empty link string.\<close>

definition has_roomLink :: "room \<Rightarrow> direction \<Rightarrow> bool" where
  "has_roomLink rm dir =
     (case map_of (roomLinks rm) (dir_name dir) of None \<Rightarrow> False | Some s \<Rightarrow> s \<noteq> [])"

text \<open>One round of the loop over the four directions, for an empty current cell.\<close>

definition empty_side ::
  "dungeon \<Rightarrow> int \<Rightarrow> int \<Rightarrow> int \<Rightarrow> direction \<Rightarrow> error + indicator option" where
  "empty_side dg x y z dir =
     (case getRoomAt dg (checkX dir x) (checkY dir y) z of
        Inl e \<Rightarrow> Inl e
      | Inr None \<Rightarrow> Inr None
      | Inr (Some _) \<Rightarrow> Inr (Some Blocked))"

text \<open>One round of the loop over the four directions, for a current room that is not dense.\<close>

definition room_side ::
  "dungeon \<Rightarrow> room \<Rightarrow> int \<Rightarrow> int \<Rightarrow> int \<Rightarrow> direction \<Rightarrow> error + indicator option" where
  "room_side dg currentRoom x y z dir =
     (case getRoomAt dg (checkX dir x) (checkY dir y) z of
        Inl e \<Rightarrow> Inl e
      | Inr None \<Rightarrow> Inr (Some Blocked)
      | Inr (Some neighborRoom) \<Rightarrow>
          if dense neighborRoom then Inr (Some Blocked)
          else if has_roomLink currentRoom dir then Inr (Some Link)
          else if hasExit (Some currentRoom) dir then
            (if hasExit (Some neighborRoom) (opposite dir) then Inr (Some Exit)
             else Inr (Some OneWayExit))
          else
            (if hasExit (Some neighborRoom) (opposite dir) then Inr (Some OneWayBlocked)
             else Inr (Some Blocked)))"

text \<open>
  The loop over the four sides, north, south, east and west in this order: the first side
  whose read of the room list throws ends the analysis with that error.
\<close>

definition four_sides ::
  "(direction \<Rightarrow> error + indicator option) \<Rightarrow> error + indicators" where
  "four_sides side =
     (case side NORTH of
        Inl e \<Rightarrow> Inl e
      | Inr n \<Rightarrow>
          (case side SOUTH of
             Inl e \<Rightarrow> Inl e
           | Inr s \<Rightarrow>
               (case side EAST of
                  Inl e \<Rightarrow> Inl e
                | Inr ea \<Rightarrow>
                    (case side WEST of
                       Inl e \<Rightarrow> Inl e
                     | Inr w \<Rightarrow> Inr \<lparr>north = n, south = s, east = ea, west = w\<rparr>))))"

definition getExitIndicators :: "dungeon \<Rightarrow> int \<Rightarrow> int \<Rightarrow> int \<Rightarrow> error + indicators" where
  "getExitIndicators dg x y z =
     (case getRoomAt dg x y z of
        Inl e \<Rightarrow> Inl e
      | Inr None \<Rightarrow> four_sides (empty_side dg x y z)
      | Inr (Some currentRoom) \<Rightarrow>
          if dense currentRoom then
            Inr \<lparr>north = Some Blocked, south = Some Blocked, east = Some Blocked,
                 west = Some Blocked\<rparr>
          else four_sides (room_side dg currentRoom x y z))"

text \<open>
  The template form reads an unset bitmask as North, South, East and West
  (\<^verbatim>\<open>DEFAULT_ALLOWED_EXITS\<close> in \<^verbatim>\<open>showTemplateModal\<close>).
\<close>

definition DEFAULT_ALLOWED_EXITS :: nat where
  "DEFAULT_ALLOWED_EXITS = DIRECTION NORTH OR DIRECTION SOUTH OR DIRECTION EAST OR DIRECTION WEST"

text \<open>
  A plain room with no bitmask, and on a one-layer grid such a room with a room to its east
  that allows all four exits.
\<close>

definition plain_room :: room where
  "plain_room = \<lparr>display = ''Room'', description = [], mapText = None, mapColor = None,
     dense = False, allowedExits = None, roomLinks = []\<rparr>"

definition two_rooms :: dungeon where
  "two_rooms = \<lparr>dimensions = \<lparr>width = 2, height = 1, layers = 1\<rparr>, grid = [[[1, 2]]],
     rooms = Some [plain_room, plain_room\<lparr>allowedExits := Some DEFAULT_ALLOWED_EXITS\<rparr>],
     templates = Some [], resets = Some [], resetMessage = None\<rparr>"

section \<open>Grid store: writes\<close>

text \<open>
  Every handler that writes a cell first makes sure the row exists
  (\<^verbatim>\<open>if (!layer[y]) layer[y] = new Array(dungeon.dimensions.width).fill(0)\<close>) and then assigns
  \<^verbatim>\<open>layer[y][x] = v\<close>, where \<^verbatim>\<open>layer = dungeon.grid[layerIndex] || []\<close>. The definitions below
  are exact where a list of lists of numbers can hold what JavaScript builds: the layer is
  there; the row is there, or it is the first row missing from its layer, which is then
  appended as a row of zeros; and the row has an element at \<open>x\<close>, which is then replaced.
  Outside that range they follow JavaScript as far as such a list can: a write through the
  temporary \<^verbatim>\<open>[]\<close> of a missing layer is lost (and a later read through it is \<^verbatim>\<open>undefined\<close> here),
  a write at a negative index does not touch the array elements, and a write past the end
  extends the array, with the holes that JavaScript leaves in between filled by \<open>0\<close> (for
  rows: by rows of zeros). Every general statement below keeps to the exact range, by its
  conditions on the grid and on the coordinates, and so does every evaluation.
\<close>

definition zeros :: "int \<Rightarrow> nat list" where
  "zeros w = replicate (nat w) 0"

definition js_store :: "'a \<Rightarrow> 'a list \<Rightarrow> int \<Rightarrow> 'a \<Rightarrow> 'a list" where
  "js_store hole xs i v =
     (if i < 0 then xs
      else if i < int (length xs) then xs[nat i := v]
      else xs @ replicate (nat i - length xs) hole @ [v])"

definition ensureRowExists :: "dungeon \<Rightarrow> int \<Rightarrow> int \<Rightarrow> dungeon" where
  "ensureRowExists dg y z =
     (let li = layerIndex (dimensions dg) z
      in case js_index (grid dg) li of
           None \<Rightarrow> dg
         | Some layer \<Rightarrow>
             (case js_index layer y of
                Some _ \<Rightarrow> dg
              | None \<Rightarrow>
                  dg\<lparr>grid := (grid dg)[nat li :=
                        js_store (zeros (width (dimensions dg))) layer y
                          (zeros (width (dimensions dg)))]\<rparr>))"

text \<open>\<^verbatim>\<open>layer[y][x]\<close> read as it is, \<open>None\<close> for \<^verbatim>\<open>undefined\<close>.\<close>

definition cell_value :: "dungeon \<Rightarrow> int \<Rightarrow> int \<Rightarrow> int \<Rightarrow> nat option" where
  "cell_value dg x y z =
     (case js_index (grid dg) (layerIndex (dimensions dg) z) of
        None \<Rightarrow> None
      | Some layer \<Rightarrow> (case js_index layer y of None \<Rightarrow> None | Some row \<Rightarrow> js_index row x))"

text \<open>\<^verbatim>\<open>layer[y][x] = v\<close>, after the row was made sure of.\<close>

definition set_cell :: "dungeon \<Rightarrow> int \<Rightarrow> int \<Rightarrow> int \<Rightarrow> nat \<Rightarrow> dungeon" where
  "set_cell dg x y z v =
     (let li = layerIndex (dimensions dg) z
      in case js_index (grid dg) li of
           None \<Rightarrow> dg
         | Some layer \<Rightarrow>
             (case js_index layer y of
                None \<Rightarrow> dg
              | Some row \<Rightarrow>
                  dg\<lparr>grid := (grid dg)[nat li := layer[nat y := js_store 0 row x v]]\<rparr>))"

section \<open>Room references\<close>

text \<open>
  A reset is joined to its cell by the string \<^verbatim>\<open>`@${dungeonId}{${x},${y},${z}}`\<close>. The
  template literal prints an integer in decimal, with a minus sign when it is negative.
\<close>

definition digit :: "nat \<Rightarrow> char" where
  "digit n = ''0123456789'' ! n"

fun decimal :: "nat \<Rightarrow> string" where
  "decimal n = (if 10 \<le> n then decimal (n div 10) @ [digit (n mod 10)] else [digit n])"

declare decimal.simps [simp del]

definition number_text :: "int \<Rightarrow> string" where
  "number_text i = (if 0 \<le> i then decimal (nat i) else CHR ''-'' # decimal (nat (- i)))"

definition mkRoomRef :: "string \<Rightarrow> int \<Rightarrow> int \<Rightarrow> int \<Rightarrow> string" where
  "mkRoomRef dungeonId x y z =
     ''@'' @ dungeonId @ ''{'' @ number_text x @ '','' @ number_text y @ '','' @
     number_text z @ ''}''"

section \<open>Resets: add or merge\<close>

text \<open>\<^verbatim>\<open>existing.maxCount || 1\<close>: an unset count and the count \<open>0\<close> are read as \<open>1\<close>.\<close>

fun or_one :: "nat option \<Rightarrow> nat" where
  "or_one None = 1"
| "or_one (Some n) = (if n = 0 then 1 else n)"

text \<open>
  \<^verbatim>\<open>dungeon.resets.find(...)\<close> yields the first matching record, and
  \<^verbatim>\<open>existing.maxCount = (existing.maxCount || 1) + 1\<close> changes that record where it is.
\<close>

fun increment_first :: "(reset \<Rightarrow> bool) \<Rightarrow> reset list \<Rightarrow> reset list" where
  "increment_first P [] = []"
| "increment_first P (r # rs) =
     (if P r then r\<lparr>maxCount := Some (or_one (maxCount r) + 1)\<rparr> # rs
      else r # increment_first P rs)"

definition new_reset :: "string \<Rightarrow> string \<Rightarrow> reset" where
  "new_reset tid ref = \<lparr>templateId = tid, roomRef = ref, minCount = Some 1, maxCount = Some 1,
     equipped = None, inventory = None\<rparr>"

text \<open>
  \<^verbatim>\<open>addReset(x, y, z)\<close>, the effect on the document: the part of the handler after the guard on
  \<^verbatim>\<open>this.selectedTemplate\<close> and the history snapshot. Nothing in it reads the grid.
\<close>

definition addReset :: "string \<Rightarrow> string option \<Rightarrow> int \<Rightarrow> int \<Rightarrow> int \<Rightarrow> dungeon \<Rightarrow> dungeon" where
  "addReset dungeonId selectedTemplate x y z dg =
     (case selectedTemplate of
        None \<Rightarrow> dg
      | Some tid \<Rightarrow>
          (let ref = mkRoomRef dungeonId x y z;
               rs = (case resets dg of None \<Rightarrow> [] | Some rs \<Rightarrow> rs);
               same = (\<lambda>r. roomRef r = ref \<and> templateId r = tid)
           in case find same rs of
                Some existing \<Rightarrow> dg\<lparr>resets := Some (increment_first same rs)\<rparr>
              | None \<Rightarrow> dg\<lparr>resets := Some (rs @ [new_reset tid ref])\<rparr>))"

text \<open>
  \<^verbatim>\<open>placeTemplateInSelection(type, id)\<close>: the template clicked on is a room (its \<^verbatim>\<open>id\<close> is the
  index in \<^verbatim>\<open>dungeon.rooms\<close>, read with \<^verbatim>\<open>parseInt\<close>), a mob or an object (its \<^verbatim>\<open>id\<close> is the
  template id). \<^verbatim>\<open>this.selectedCells\<close> is a JavaScript \<^verbatim>\<open>Set\<close>, visited in insertion order: a list.
  The name for the toast is read after the loop; for a room that is \<^verbatim>\<open>dungeon.rooms[parseInt(id)]\<close>,
  which throws on a document without a room list when every cell has been written.
\<close>

datatype picked = RoomTemplate nat | MobTemplate string | ObjectTemplate string

definition place_reset_in_cell :: "string \<Rightarrow> string \<Rightarrow> dungeon \<Rightarrow> cell \<Rightarrow> dungeon" where
  "place_reset_in_cell dungeonId tid dg c =
     (case c of (x, y, z) \<Rightarrow>
        if roomIndex_at dg x y z > 0 then
          (let ref = mkRoomRef dungeonId x y z;
               same = (\<lambda>r. roomRef r = ref \<and> templateId r = tid)
           in case (case resets dg of None \<Rightarrow> None | Some rs \<Rightarrow> find same rs) of
                Some existingReset \<Rightarrow> dg\<lparr>resets := map_option (increment_first same) (resets dg)\<rparr>
              | None \<Rightarrow>
                  dg\<lparr>resets := Some ((case resets dg of None \<Rightarrow> [] | Some rs \<Rightarrow> rs) @
                                      [new_reset tid ref])\<rparr>)
        else dg)"

definition place_in_cell :: "string \<Rightarrow> picked \<Rightarrow> cell \<Rightarrow> dungeon \<Rightarrow> dungeon" where
  "place_in_cell dungeonId p c dg =
     (case p of
        RoomTemplate i \<Rightarrow>
          (case c of (x, y, z) \<Rightarrow> set_cell (ensureRowExists dg y z) x y z (i + 1))
      | MobTemplate tid \<Rightarrow> place_reset_in_cell dungeonId tid dg c
      | ObjectTemplate tid \<Rightarrow> place_reset_in_cell dungeonId tid dg c)"

definition placeTemplateInSelection :: "string \<Rightarrow> cell list \<Rightarrow> picked \<Rightarrow> dungeon \<Rightarrow> dungeon" where
  "placeTemplateInSelection dungeonId selectedCells p dg =
     (if selectedCells = [] then dg else fold (place_in_cell dungeonId p) selectedCells dg)"

text \<open>An empty one-cell document, a reset of rats in its cell, and the cell holding a room.\<close>

definition empty_1x1 :: dungeon where
  "empty_1x1 = \<lparr>dimensions = \<lparr>width = 1, height = 1, layers = 1\<rparr>, grid = [[[0]]],
     rooms = Some [plain_room],
     templates = Some [\<lparr>id_t = ''rat'', type_t = ''Mob'', display_t = ''Rat''\<rparr>],
     resets = Some [], resetMessage = None\<rparr>"

definition rat_reset :: "nat option \<Rightarrow> nat option \<Rightarrow> reset" where
  "rat_reset lo hi = \<lparr>templateId = ''rat'', roomRef = ''@crypt{0,0,0}'', minCount = lo,
     maxCount = hi, equipped = None, inventory = None\<rparr>"

definition one_room_1x1 :: "reset list \<Rightarrow> dungeon" where
  "one_room_1x1 rs = empty_1x1\<lparr>grid := [[[1]]], resets := Some rs\<rparr>"

section \<open>Deleting a template\<close>

text \<open>
  \<^verbatim>\<open>dungeon.resets = dungeon.resets.filter((r) => r.roomRef !== roomRef)\<close>, guarded by
  \<^verbatim>\<open>if (dungeon.resets)\<close>.
\<close>

definition remove_resets_at :: "string \<Rightarrow> reset list option \<Rightarrow> reset list option" where
  "remove_resets_at ref rs = map_option (filter (\<lambda>r. roomRef r \<noteq> ref)) rs"

text \<open>
  The first triple loop of \<^verbatim>\<open>deleteTemplate\<close> for a room: over \<^verbatim>\<open>layerIndex\<close>, \<^verbatim>\<open>y\<close> and \<^verbatim>\<open>x\<close>, each
  cell equal to \<^verbatim>\<open>roomIndex + 1\<close> is set to \<open>0\<close> and the resets of its coordinate are filtered
  out, with \<^verbatim>\<open>z = dungeon.dimensions.layers - 1 - layerIndex\<close>. Each loop walks its array
  from index \<open>0\<close> and touches only the element it stands on, so it is a recursion over the
  list that carries the index and the resets.
\<close>

fun clear_row ::
  "(int \<Rightarrow> string) \<Rightarrow> nat \<Rightarrow> int \<Rightarrow> nat list \<Rightarrow> reset list option \<Rightarrow> nat list \<times> reset list option"
where
  "clear_row ref k x [] rs = ([], rs)"
| "clear_row ref k x (v # row) rs =
     (if v = k then
        (case clear_row ref k (x + 1) row (remove_resets_at (ref x) rs) of
           (row', rs') \<Rightarrow> (0 # row', rs'))
      else
        (case clear_row ref k (x + 1) row rs of (row', rs') \<Rightarrow> (v # row', rs')))"

fun clear_layer ::
  "(int \<Rightarrow> int \<Rightarrow> string) \<Rightarrow> nat \<Rightarrow> int \<Rightarrow> nat list list \<Rightarrow> reset list option \<Rightarrow>
   nat list list \<times> reset list option"
where
  "clear_layer ref k y [] rs = ([], rs)"
| "clear_layer ref k y (row # layer) rs =
     (case clear_row (\<lambda>x. ref x y) k 0 row rs of
        (row', rs') \<Rightarrow>
          (case clear_layer ref k (y + 1) layer rs' of
             (layer', rs'') \<Rightarrow> (row' # layer', rs'')))"

fun clear_grid ::
  "string \<Rightarrow> dimensions \<Rightarrow> nat \<Rightarrow> int \<Rightarrow> grid \<Rightarrow> reset list option \<Rightarrow> grid \<times> reset list option"
where
  "clear_grid dungeonId d k li [] rs = ([], rs)"
| "clear_grid dungeonId d k li (layer # g) rs =
     (case clear_layer (\<lambda>x y. mkRoomRef dungeonId x y (layers d - 1 - li)) k 0 layer rs of
        (layer', rs') \<Rightarrow>
          (case clear_grid dungeonId d k (li + 1) g rs' of
             (g', rs'') \<Rightarrow> (layer' # g', rs'')))"

text \<open>
  \<^verbatim>\<open>dungeon.templates.findIndex((t) => t.id === id)\<close> and \<^verbatim>\<open>splice(templateIndex, 1)\<close>: the first
  template with that id is taken out.
\<close>

fun remove_first :: "('a \<Rightarrow> bool) \<Rightarrow> 'a list \<Rightarrow> 'a list" where
  "remove_first P [] = []"
| "remove_first P (t # ts) = (if P t then ts else t # remove_first P ts)"

text \<open>
  \<^verbatim>\<open>deleteTemplate(type, id)\<close>, the effect on the document. For a room, \<^verbatim>\<open>parseInt(id)\<close> is the
  index; the second triple loop decrements every cell above \<^verbatim>\<open>roomIndex + 1\<close>. Any other type
  takes the branch for mobs and objects. On a document without a room list the room branch
  throws at \<^verbatim>\<open>dungeon.rooms.length\<close>, before anything is changed.
\<close>

definition deleteTemplate :: "string \<Rightarrow> picked \<Rightarrow> dungeon \<Rightarrow> dungeon" where
  "deleteTemplate dungeonId p dg =
     (case p of
        RoomTemplate roomIndex \<Rightarrow>
          (case rooms dg of
             None \<Rightarrow> dg
           | Some rms \<Rightarrow>
               if roomIndex \<ge> length rms then dg
               else
                 (case clear_grid dungeonId (dimensions dg) (roomIndex + 1) 0 (grid dg)
                         (resets dg) of
                    (g, rs) \<Rightarrow>
                      dg\<lparr>grid := map (map (map (\<lambda>v. if v > roomIndex + 1 then v - 1 else v))) g,
                         rooms := Some (take roomIndex rms @ drop (Suc roomIndex) rms),
                         resets := rs\<rparr>))
      | MobTemplate tid \<Rightarrow>
          (case (case templates dg of None \<Rightarrow> None | Some ts \<Rightarrow> find (\<lambda>t. id_t t = tid) ts) of
             None \<Rightarrow> dg
           | Some template \<Rightarrow>
               dg\<lparr>resets := map_option (filter (\<lambda>r. templateId r \<noteq> tid)) (resets dg),
                  templates := map_option (remove_first (\<lambda>t. id_t t = tid)) (templates dg)\<rparr>)
      | ObjectTemplate tid \<Rightarrow>
          (case (case templates dg of None \<Rightarrow> None | Some ts \<Rightarrow> find (\<lambda>t. id_t t = tid) ts) of
             None \<Rightarrow> dg
           | Some template \<Rightarrow>
               dg\<lparr>resets := map_option (filter (\<lambda>r. templateId r \<noteq> tid)) (resets dg),
                  templates := map_option (remove_first (\<lambda>t. id_t t = tid)) (templates dg)\<rparr>))"

text \<open>
  Rooms A, B and C, a grid with a C cell at \<open>(0, 0, 0)\<close> and a B cell at \<open>(1, 0, 0)\<close>, a rat in
  each of the two cells and a bat in the second.
\<close>

definition named_room :: "string \<Rightarrow> room" where
  "named_room n = plain_room\<lparr>display := n\<rparr>"

definition reset_at :: "string \<Rightarrow> string \<Rightarrow> reset" where
  "reset_at tid ref = \<lparr>templateId = tid, roomRef = ref, minCount = Some 1, maxCount = Some 2,
     equipped = None, inventory = None\<rparr>"

definition abc_dungeon :: dungeon where
  "abc_dungeon = \<lparr>dimensions = \<lparr>width = 2, height = 1, layers = 1\<rparr>, grid = [[[3, 2]]],
     rooms = Some [named_room ''A'', named_room ''B'', named_room ''C''],
     templates = Some [\<lparr>id_t = ''rat'', type_t = ''Mob'', display_t = ''Rat''\<rparr>,
                       \<lparr>id_t = ''bat'', type_t = ''Mob'', display_t = ''Bat''\<rparr>],
     resets = Some [reset_at ''rat'' ''@crypt{0,0,0}'', reset_at ''rat'' ''@crypt{1,0,0}'',
                    reset_at ''bat'' ''@crypt{1,0,0}''],
     resetMessage = None\<rparr>"

section \<open>Bounds and rectangular grids\<close>

text \<open>
  The bounds check that the flood fill and the paste make on every target coordinate, the same
  check and the read \<^verbatim>\<open>row[x] || 0\<close> on a cell given as a triple, and the shape of a grid as \<^verbatim>\<open>createNewDungeon\<close> builds it: \<^verbatim>\<open>layers\<close> layers of \<^verbatim>\<open>height\<close> rows of
  \<^verbatim>\<open>width\<close> cells.
\<close>

definition in_bounds :: "dimensions \<Rightarrow> int \<Rightarrow> int \<Rightarrow> int \<Rightarrow> bool" where
  "in_bounds d x y z \<longleftrightarrow>
     x \<ge> 0 \<and> x < width d \<and> y \<ge> 0 \<and> y < height d \<and> z \<ge> 0 \<and> z < layers d"

definition inside :: "dimensions \<Rightarrow> cell \<Rightarrow> bool" where
  "inside d c = (case c of (x, y, z) \<Rightarrow> in_bounds d x y z)"




section \<open>Copy and paste\<close>









section \<open>Placing and painting rooms\<close>

text \<open>
  For a room-type selection \<^verbatim>\<open>this.selectedTemplate\<close> is \<^verbatim>\<open>"__DELETE__"\<close> or the index of a room
  template, read with \<^verbatim>\<open>parseInt\<close>; \<^verbatim>\<open>this.placementMode\<close> is \<^verbatim>\<open>"insert"\<close> or \<^verbatim>\<open>"paint"\<close>.
\<close>

datatype selected = DELETE | Room nat

datatype placementMode = Insert_mode | Paint_mode

text \<open>The four neighbours, in the order of the source: up, down, left, right.\<close>

definition directions :: "cell \<Rightarrow> cell list" where
  "directions c = (case c of (x, y, z) \<Rightarrow> [(x, y - 1, z), (x, y + 1, z), (x - 1, y, z), (x + 1, y, z)])"

text \<open>
  The neighbours that the loop pushes on the queue: inside the dimensions and not yet in
  \<^verbatim>\<open>visited\<close>, which by then holds the current cell.
\<close>

definition next_cells :: "dimensions \<Rightarrow> cell list \<Rightarrow> cell \<Rightarrow> cell list" where
  "next_cells d visited c =
     filter (\<lambda>n. inside d n \<and> n \<notin> set visited) (directions c)"

text \<open>
  The flood fill of paint mode, \<^verbatim>\<open>while (queue.length > 0)\<close>: \<^verbatim>\<open>queue.shift()\<close> takes the head,
  \<^verbatim>\<open>visited\<close> is a \<^verbatim>\<open>Set\<close> of cell keys, and \<^verbatim>\<open>targetValue\<close> is what the origin cell held
  (\<open>None\<close> for \<^verbatim>\<open>undefined\<close>, which \<^verbatim>\<open>===\<close> equals only itself). The loop ends because every round
  either drops an already visited head or visits one more of the finitely many cells that
  can ever be queued.
\<close>

function paint_fill :: "nat option \<Rightarrow> nat \<Rightarrow> cell list \<Rightarrow> cell list \<Rightarrow> dungeon \<Rightarrow> dungeon" where
  "paint_fill targetValue templateIndex [] visited dg = dg"
| "paint_fill targetValue templateIndex ((x, y, z) # queue) visited dg =
     (if (x, y, z) \<in> set visited then paint_fill targetValue templateIndex queue visited dg
      else if cell_value (ensureRowExists dg y z) x y z = targetValue then
        paint_fill targetValue templateIndex
          (queue @ next_cells (dimensions dg) ((x, y, z) # visited) (x, y, z))
          ((x, y, z) # visited)
          (set_cell (ensureRowExists dg y z) x y z templateIndex)
      else
        paint_fill targetValue templateIndex queue ((x, y, z) # visited)
          (ensureRowExists dg y z))"
  by pat_completeness auto
termination
proof (relation "inv_image (less_than <*lex*> less_than)
    (\<lambda>(targetValue, templateIndex, queue, visited, dg).
       (card (({(x, y, z). in_bounds (dimensions dg) x y z} \<union> set queue) - set visited),
        length queue))")
  show "wf (inv_image (less_than <*lex*> less_than)
    (\<lambda>(targetValue, templateIndex, queue, visited, dg).
       (card (({(x, y, z). in_bounds (dimensions dg) x y z} \<union> set queue) - set visited),
        length queue)))"
    by (intro wf_inv_image wf_lex_prod wf_less_than)
next
  fix templateIndex :: nat and x y z :: int and queue visited :: "cell list" and dg :: dungeon
  let ?I = "{(x, y, z). in_bounds (dimensions dg) x y z}"
  have fin: "finite ?I"
    by (rule finite_subset [of _ "{0..<width (dimensions dg)} \<times> {0..<height (dimensions dg)}
        \<times> {0..<layers (dimensions dg)}"]) (auto simp: in_bounds_def)
  have dims: "dimensions (ensureRowExists dg y z) = dimensions dg"
    "dimensions (set_cell (ensureRowExists dg y z) x y z templateIndex) = dimensions dg"
    by (simp_all add: ensureRowExists_def set_cell_def Let_def split: option.splits)
  have nxt: "set (next_cells (dimensions dg) ((x, y, z) # visited) (x, y, z)) \<subseteq> ?I" for visited
    by (auto simp: next_cells_def inside_def)
  {
    assume "(x, y, z) \<in> set visited"
    have "card ((?I \<union> set queue) - set visited)
        \<le> card ((?I \<union> set ((x, y, z) # queue)) - set visited)"
      using fin by (intro card_mono) auto
    then show "((targetValue, templateIndex, queue, visited, dg),
        (targetValue, templateIndex, (x, y, z) # queue, visited, dg))
      \<in> inv_image (less_than <*lex*> less_than)
        (\<lambda>(targetValue, templateIndex, queue, visited, dg).
           (card (({(x, y, z). in_bounds (dimensions dg) x y z} \<union> set queue) - set visited),
            length queue))" for targetValue
      by auto
  }
  {
    assume nv: "(x, y, z) \<notin> set visited"
    have less: "card ((?I \<union> Q) - set ((x, y, z) # visited))
        < card ((?I \<union> set ((x, y, z) # queue)) - set visited)"
      if "Q \<subseteq> ?I \<union> set queue" for Q
      using fin nv that by (intro psubset_card_mono) auto
    have "set (queue @ next_cells (dimensions dg) ((x, y, z) # visited) (x, y, z))
        \<subseteq> ?I \<union> set queue"
      using nxt [of visited] by auto
    from less [OF this]
    show "((targetValue, templateIndex,
         queue @ next_cells (dimensions dg) ((x, y, z) # visited) (x, y, z),
         (x, y, z) # visited, set_cell (ensureRowExists dg y z) x y z templateIndex),
        (targetValue, templateIndex, (x, y, z) # queue, visited, dg))
      \<in> inv_image (less_than <*lex*> less_than)
        (\<lambda>(targetValue, templateIndex, queue, visited, dg).
           (card (({(x, y, z). in_bounds (dimensions dg) x y z} \<union> set queue) - set visited),
            length queue))" for targetValue
      by (simp add: dims)
    from less [of "set queue"]
    show "((targetValue, templateIndex, queue, (x, y, z) # visited, ensureRowExists dg y z),
        (targetValue, templateIndex, (x, y, z) # queue, visited, dg))
      \<in> inv_image (less_than <*lex*> less_than)
        (\<lambda>(targetValue, templateIndex, queue, visited, dg).
           (card (({(x, y, z). in_bounds (dimensions dg) x y z} \<union> set queue) - set visited),
            length queue))" for targetValue
      by (simp add: dims)
  }
qed

text \<open>
  The flood fill of paint mode with the delete tool: the same walk, with \<open>0\<close> written and the
  resets of each cleared coordinate filtered out.
\<close>

function paint_delete :: "string \<Rightarrow> nat option \<Rightarrow> cell list \<Rightarrow> cell list \<Rightarrow> dungeon \<Rightarrow> dungeon" where
  "paint_delete dungeonId targetValue [] visited dg = dg"
| "paint_delete dungeonId targetValue ((x, y, z) # queue) visited dg =
     (if (x, y, z) \<in> set visited then paint_delete dungeonId targetValue queue visited dg
      else if cell_value (ensureRowExists dg y z) x y z = targetValue then
        paint_delete dungeonId targetValue
          (queue @ next_cells (dimensions dg) ((x, y, z) # visited) (x, y, z))
          ((x, y, z) # visited)
          ((set_cell (ensureRowExists dg y z) x y z 0)
             \<lparr>resets := remove_resets_at (mkRoomRef dungeonId x y z) (resets dg)\<rparr>)
      else
        paint_delete dungeonId targetValue queue ((x, y, z) # visited)
          (ensureRowExists dg y z))"
  by pat_completeness auto
termination
proof (relation "inv_image (less_than <*lex*> less_than)
    (\<lambda>(dungeonId, targetValue, queue, visited, dg).
       (card (({(x, y, z). in_bounds (dimensions dg) x y z} \<union> set queue) - set visited),
        length queue))")
  show "wf (inv_image (less_than <*lex*> less_than)
    (\<lambda>(dungeonId, targetValue, queue, visited, dg).
       (card (({(x, y, z). in_bounds (dimensions dg) x y z} \<union> set queue) - set visited),
        length queue)))"
    by (intro wf_inv_image wf_lex_prod wf_less_than)
next
  fix dungeonId :: string and x y z :: int and queue visited :: "cell list" and dg :: dungeon
  let ?I = "{(x, y, z). in_bounds (dimensions dg) x y z}"
  have fin: "finite ?I"
    by (rule finite_subset [of _ "{0..<width (dimensions dg)} \<times> {0..<height (dimensions dg)}
        \<times> {0..<layers (dimensions dg)}"]) (auto simp: in_bounds_def)
  have dims: "dimensions (ensureRowExists dg y z) = dimensions dg"
    "dimensions ((set_cell (ensureRowExists dg y z) x y z 0)
       \<lparr>resets := remove_resets_at (mkRoomRef dungeonId x y z) (resets dg)\<rparr>) = dimensions dg"
    by (simp_all add: ensureRowExists_def set_cell_def Let_def split: option.splits)
  have nxt: "set (next_cells (dimensions dg) ((x, y, z) # visited) (x, y, z)) \<subseteq> ?I" for visited
    by (auto simp: next_cells_def inside_def)
  {
    assume "(x, y, z) \<in> set visited"
    have "card ((?I \<union> set queue) - set visited)
        \<le> card ((?I \<union> set ((x, y, z) # queue)) - set visited)"
      using fin by (intro card_mono) auto
    then show "((dungeonId, targetValue, queue, visited, dg),
        (dungeonId, targetValue, (x, y, z) # queue, visited, dg))
      \<in> inv_image (less_than <*lex*> less_than)
        (\<lambda>(dungeonId, targetValue, queue, visited, dg).
           (card (({(x, y, z). in_bounds (dimensions dg) x y z} \<union> set queue) - set visited),
            length queue))" for targetValue :: "nat option"
      by auto
  }
  {
    assume nv: "(x, y, z) \<notin> set visited"
    have less: "card ((?I \<union> Q) - set ((x, y, z) # visited))
        < card ((?I \<union> set ((x, y, z) # queue)) - set visited)"
      if "Q \<subseteq> ?I \<union> set queue" for Q
      using fin nv that by (intro psubset_card_mono) auto
    have "set (queue @ next_cells (dimensions dg) ((x, y, z) # visited) (x, y, z))
        \<subseteq> ?I \<union> set queue"
      using nxt [of visited] by auto
    from less [OF this]
    show "((dungeonId, targetValue,
         queue @ next_cells (dimensions dg) ((x, y, z) # visited) (x, y, z),
         (x, y, z) # visited,
         (set_cell (ensureRowExists dg y z) x y z 0)
           \<lparr>resets := remove_resets_at (mkRoomRef dungeonId x y z) (resets dg)\<rparr>),
        (dungeonId, targetValue, (x, y, z) # queue, visited, dg))
      \<in> inv_image (less_than <*lex*> less_than)
        (\<lambda>(dungeonId, targetValue, queue, visited, dg).
           (card (({(x, y, z). in_bounds (dimensions dg) x y z} \<union> set queue) - set visited),
            length queue))" for targetValue :: "nat option"
      by (simp add: dims)
    from less [of "set queue"]
    show "((dungeonId, targetValue, queue, (x, y, z) # visited, ensureRowExists dg y z),
        (dungeonId, targetValue, (x, y, z) # queue, visited, dg))
      \<in> inv_image (less_than <*lex*> less_than)
        (\<lambda>(dungeonId, targetValue, queue, visited, dg).
           (card (({(x, y, z). in_bounds (dimensions dg) x y z} \<union> set queue) - set visited),
            length queue))" for targetValue :: "nat option"
      by (simp add: dims)
  }
qed

text \<open>
  \<^verbatim>\<open>placeRoomTemplate(x, y, z)\<close>, the effect on the document: after the guard on
  \<^verbatim>\<open>this.selectedTemplate\<close> and the history snapshot, the row of the clicked cell is made sure
  of, and then the delete tool or the room template is applied, to the cell (insert mode) or
  from the cell by flood fill (paint mode). Paint delete and insert delete do nothing on a cell
  that is not above \<open>0\<close>. Each branch reads \<^verbatim>\<open>dungeon.rooms[...]\<close> for the name in its toast, which
  throws on a document without a room list: the delete tool on a room and the paint fill
  stop there, before they change a cell; insert mode has written its cell by then.
\<close>

definition placeRoomTemplate ::
  "string \<Rightarrow> selected option \<Rightarrow> placementMode \<Rightarrow> int \<Rightarrow> int \<Rightarrow> int \<Rightarrow> dungeon \<Rightarrow> dungeon" where
  "placeRoomTemplate dungeonId selectedTemplate mode x y z dg =
     (case selectedTemplate of
        None \<Rightarrow> dg
      | Some sel \<Rightarrow>
          (let dg1 = ensureRowExists dg y z
           in case sel of
                DELETE \<Rightarrow>
                  (case mode of
                     Paint_mode \<Rightarrow>
                       (let targetValue = cell_value dg1 x y z
                        in if (case targetValue of None \<Rightarrow> False | Some v \<Rightarrow> v > 0)
                           then (case rooms dg1 of
                                   None \<Rightarrow> dg1
                                 | Some _ \<Rightarrow>
                                     paint_delete dungeonId targetValue [(x, y, z)] [] dg1)
                           else dg1)
                   | Insert_mode \<Rightarrow>
                       (let hadRoom = (case cell_value dg1 x y z of
                                         None \<Rightarrow> False | Some v \<Rightarrow> v > 0)
                        in if hadRoom then
                             (case rooms dg1 of
                                None \<Rightarrow> dg1
                              | Some _ \<Rightarrow>
                                  (set_cell dg1 x y z 0)
                                    \<lparr>resets := remove_resets_at (mkRoomRef dungeonId x y z)
                                                 (resets dg1)\<rparr>)
                           else dg1))
              | Room i \<Rightarrow>
                  (case mode of
                     Paint_mode \<Rightarrow>
                       (let targetValue = cell_value dg1 x y z; templateIndex = i + 1
                        in case rooms dg1 of
                             None \<Rightarrow> dg1
                           | Some _ \<Rightarrow> paint_fill targetValue templateIndex [(x, y, z)] [] dg1)
                   | Insert_mode \<Rightarrow> (let templateIndex = i + 1 in set_cell dg1 x y z templateIndex))))"









section \<open>History manager\<close>

text \<open>
  The history shares objects with the live document, so this part of the editor is modelled
  over a store. The live document and every history entry are JavaScript objects whose fields
  \<^verbatim>\<open>dimensions\<close>, \<^verbatim>\<open>grid\<close>, \<^verbatim>\<open>rooms\<close>, \<^verbatim>\<open>templates\<close> and \<^verbatim>\<open>resets\<close> refer to an object or array
  each; \<^verbatim>\<open>resetMessage\<close> is a string, a value. The store maps an address to the object or array
  at that address, one map for each of the five kinds, and counts the addresses handed out.
  Sharing is followed at the level of these five fields: two state objects share a grid when
  their \<^verbatim>\<open>grid\<close> fields hold the same address. The arrays nested in a grid are reached
  through that grid only, because the only copies are the deep copies of
  \<^verbatim>\<open>cloneDungeonState\<close>. The records in a reset array can come to be shared by two arrays,
  when \<^verbatim>\<open>filter\<close> builds a new array from one that a history entry holds; that further
  sharing is not followed, and nothing below depends on the resets of a restored document.
\<close>

type_synonym addr = nat

record store =
  dimensions_at :: "addr \<Rightarrow> dimensions"
  grid_at :: "addr \<Rightarrow> grid"
  rooms_at :: "addr \<Rightarrow> room list"
  templates_at :: "addr \<Rightarrow> template list"
  resets_at :: "addr \<Rightarrow> reset list"
  next_addr :: addr

record state_obj =
  dimensions_ref :: addr
  grid_ref :: addr
  rooms_ref :: "addr option"
  templates_ref :: "addr option"
  resets_ref :: "addr option"
  resetMessage_val :: "string option"

text \<open>The document that a state object stands for in a store.\<close>

definition view :: "store \<Rightarrow> state_obj \<Rightarrow> dungeon" where
  "view st s = \<lparr>dimensions = dimensions_at st (dimensions_ref s), grid = grid_at st (grid_ref s),
     rooms = map_option (rooms_at st) (rooms_ref s),
     templates = map_option (templates_at st) (templates_ref s),
     resets = map_option (resets_at st) (resets_ref s), resetMessage = resetMessage_val s\<rparr>"


text \<open>
  A document built from fresh objects, as \<^verbatim>\<open>jsyaml.load\<close> and \<^verbatim>\<open>JSON.parse\<close> build it: five
  new addresses, of which an unset field uses none.
\<close>

definition alloc_dungeon :: "store \<Rightarrow> dungeon \<Rightarrow> store \<times> state_obj" where
  "alloc_dungeon st d =
     (let a = next_addr st
      in (st\<lparr>dimensions_at := (dimensions_at st)(a := dimensions d),
              grid_at := (grid_at st)(a + 1 := grid d),
              rooms_at := (case rooms d of None \<Rightarrow> rooms_at st
                           | Some rms \<Rightarrow> (rooms_at st)(a + 2 := rms)),
              templates_at := (case templates d of None \<Rightarrow> templates_at st
                               | Some ts \<Rightarrow> (templates_at st)(a + 3 := ts)),
              resets_at := (case resets d of None \<Rightarrow> resets_at st
                            | Some rs \<Rightarrow> (resets_at st)(a + 4 := rs)),
              next_addr := a + 5\<rparr>,
          \<lparr>dimensions_ref = a, grid_ref = a + 1,
           rooms_ref = map_option (\<lambda>_. a + 2) (rooms d),
           templates_ref = map_option (\<lambda>_. a + 3) (templates d),
           resets_ref = map_option (\<lambda>_. a + 4) (resets d),
           resetMessage_val = resetMessage d\<rparr>))"

text \<open>
  What \<^verbatim>\<open>cloneDungeonState\<close> copies: the document, with \<^verbatim>\<open>dungeon.rooms || []\<close>,
  \<^verbatim>\<open>dungeon.templates || []\<close> and \<^verbatim>\<open>dungeon.resets || []\<close>. \<^verbatim>\<open>JSON.parse(JSON.stringify(v))\<close> is a
  new object of the same value.
\<close>

definition snapshot_of :: "dungeon \<Rightarrow> dungeon" where
  "snapshot_of d = d\<lparr>rooms := Some (case rooms d of None \<Rightarrow> [] | Some rms \<Rightarrow> rms),
                      templates := Some (case templates d of None \<Rightarrow> [] | Some ts \<Rightarrow> ts),
                      resets := Some (case resets d of None \<Rightarrow> [] | Some rs \<Rightarrow> rs)\<rparr>"

definition cloneDungeonState :: "store \<Rightarrow> state_obj \<Rightarrow> store \<times> state_obj" where
  "cloneDungeonState st dungeon = alloc_dungeon st (snapshot_of (view st dungeon))"

text \<open>
  The editor: the store, \<^verbatim>\<open>this.yamlData.dungeon\<close> (\<open>None\<close> while no document is loaded), the
  history with its index, and the selection state that \<^verbatim>\<open>placeRoomTemplate\<close> reads.
\<close>

record editor =
  heap :: store
  yamlData :: "state_obj option"
  history :: "state_obj list"
  historyIndex :: int
  maxHistorySize :: nat
  currentDungeonId :: string
  selectedTemplate :: "selected option"
  placementMode :: placementMode

text \<open>The editor as the constructor leaves it.\<close>

definition new_editor :: editor where
  "new_editor = \<lparr>heap = \<lparr>dimensions_at = (\<lambda>_. \<lparr>width = 0, height = 0, layers = 0\<rparr>),
       grid_at = (\<lambda>_. []), rooms_at = (\<lambda>_. []), templates_at = (\<lambda>_. []), resets_at = (\<lambda>_. []),
       next_addr = 0\<rparr>,
     yamlData = None, history = [], historyIndex = - 1, maxHistorySize = 50,
     currentDungeonId = [], selectedTemplate = None, placementMode = Insert_mode\<rparr>"

text \<open>
  \<^verbatim>\<open>loadDungeonFromServer(id)\<close>, with the parsed document as an argument: the selection is
  cleared, the document becomes the live one, and the history starts with one snapshot.
\<close>

definition loadDungeonFromServer :: "string \<Rightarrow> dungeon \<Rightarrow> editor \<Rightarrow> editor" where
  "loadDungeonFromServer ident doc e =
     (case alloc_dungeon (heap e) doc of
        (st1, dungeon) \<Rightarrow>
          (case cloneDungeonState st1 dungeon of
             (st2, state) \<Rightarrow>
               e\<lparr>heap := st2, yamlData := Some dungeon, history := [state], historyIndex := 0,
                 currentDungeonId := ident, selectedTemplate := None\<rparr>))"

text \<open>\<^verbatim>\<open>xs.slice(0, end)\<close>; a negative \<^verbatim>\<open>end\<close> counts from the end of the array.\<close>

definition js_slice0 :: "'a list \<Rightarrow> int \<Rightarrow> 'a list" where
  "js_slice0 xs e = (if e \<ge> 0 then take (nat e) xs else take (length xs - nat (- e)) xs)"

definition saveStateToHistory :: "editor \<Rightarrow> editor" where
  "saveStateToHistory e =
     (case yamlData e of
        None \<Rightarrow> e
      | Some dungeon \<Rightarrow>
          (case cloneDungeonState (heap e) dungeon of
             (st, newState) \<Rightarrow>
               (let kept = (if historyIndex e < int (length (history e)) - 1
                            then js_slice0 (history e) (historyIndex e + 1) else history e);
                    pushed = kept @ [newState]
                in if length pushed > maxHistorySize e
                   then e\<lparr>heap := st, history := tl pushed,
                          historyIndex := int (length pushed) - 1 - 1\<rparr>
                   else e\<lparr>heap := st, history := pushed,
                          historyIndex := int (length pushed) - 1\<rparr>)))"

text \<open>
  \<^verbatim>\<open>restoreStateFromHistory(state)\<close> assigns the six fields of the entry to the live document:
  the live document then refers to the objects of the entry.
\<close>

definition restoreStateFromHistory :: "state_obj \<Rightarrow> editor \<Rightarrow> editor" where
  "restoreStateFromHistory state e =
     (case yamlData e of
        None \<Rightarrow> e
      | Some dungeon \<Rightarrow>
          e\<lparr>yamlData := Some (dungeon\<lparr>dimensions_ref := dimensions_ref state,
               grid_ref := grid_ref state, rooms_ref := rooms_ref state,
               templates_ref := templates_ref state, resets_ref := resets_ref state,
               resetMessage_val := resetMessage_val state\<rparr>)\<rparr>)"

text \<open>
  \<^verbatim>\<open>undo()\<close> and \<^verbatim>\<open>redo()\<close>. Were \<^verbatim>\<open>this.history[this.historyIndex]\<close> ever \<^verbatim>\<open>undefined\<close>, reading its
  fields would throw after the index was moved; the index is inside the history in every
  state the editor reaches.
\<close>

definition undo :: "editor \<Rightarrow> editor" where
  "undo e =
     (if historyIndex e \<le> 0 then e
      else
        (let e1 = e\<lparr>historyIndex := historyIndex e - 1\<rparr>
         in case js_index (history e1) (historyIndex e1) of
              None \<Rightarrow> e1
            | Some state \<Rightarrow> restoreStateFromHistory state e1))"


text \<open>
  \<^verbatim>\<open>placeRoomTemplate(x, y, z)\<close> on the editor: the guard, the snapshot, and then the effect on
  the live document. The cells are written into the live grid where it is
  (\<^verbatim>\<open>layer[y][x] = ...\<close>). The resets are touched by the delete tool only, when it clears a
  room (which it does on a document with a room list only) and \<^verbatim>\<open>dungeon.resets\<close> is set:
  \<^verbatim>\<open>filter\<close> builds a new array, which is assigned to the field.
\<close>

definition apply_placeRoomTemplate :: "int \<Rightarrow> int \<Rightarrow> int \<Rightarrow> editor \<Rightarrow> editor" where
  "apply_placeRoomTemplate x y z e =
     (case yamlData e of
        None \<Rightarrow> e
      | Some dungeon \<Rightarrow>
          (let d = view (heap e) dungeon;
               d' = placeRoomTemplate (currentDungeonId e) (selectedTemplate e) (placementMode e)
                      x y z d;
               st1 = (heap e)\<lparr>grid_at := (grid_at (heap e))(grid_ref dungeon := grid d')\<rparr>;
               filtered = (selectedTemplate e = Some DELETE \<and> resets d \<noteq> None \<and>
                           rooms d \<noteq> None \<and>
                           (case cell_value (ensureRowExists d y z) x y z of
                              None \<Rightarrow> False | Some v \<Rightarrow> v > 0))
           in if filtered then
                e\<lparr>heap := st1\<lparr>resets_at := (resets_at st1)
                                 (next_addr st1 := (case resets d' of None \<Rightarrow> [] | Some rs \<Rightarrow> rs)),
                               next_addr := next_addr st1 + 1\<rparr>,
                  yamlData := Some (dungeon\<lparr>resets_ref := Some (next_addr st1)\<rparr>)\<rparr>
              else e\<lparr>heap := st1\<rparr>))"

definition placeRoomTemplate_handler :: "int \<Rightarrow> int \<Rightarrow> int \<Rightarrow> editor \<Rightarrow> editor" where
  "placeRoomTemplate_handler x y z e =
     (if yamlData e = None \<or> selectedTemplate e = None then e
      else apply_placeRoomTemplate x y z (saveStateToHistory e))"

text \<open>The document the editor shows, and the documents its history entries stand for.\<close>

definition live_doc :: "editor \<Rightarrow> dungeon option" where
  "live_doc e = map_option (view (heap e)) (yamlData e)"

definition history_docs :: "editor \<Rightarrow> dungeon list" where
  "history_docs e = map (view (heap e)) (history e)"




text \<open>A handler: the snapshot, then the edit.\<close>

definition mutation :: "(editor \<Rightarrow> editor) \<Rightarrow> editor \<Rightarrow> editor" where
  "mutation f e = f (saveStateToHistory e)"

text \<open>A document of two empty cells, loaded, with the first room template selected.\<close>

definition two_cells :: dungeon where
  "two_cells = \<lparr>dimensions = \<lparr>width = 2, height = 1, layers = 1\<rparr>, grid = [[[0, 0]]],
     rooms = Some [plain_room], templates = Some [], resets = Some [], resetMessage = None\<rparr>"

definition loaded_two_cells :: editor where
  "loaded_two_cells =
     (loadDungeonFromServer ''crypt'' two_cells new_editor)\<lparr>selectedTemplate := Some (Room 0)\<rparr>"

section \<open>Exit analyzer: the unset bitmask\<close>

text \<open>
  C9. The claim: a room whose \<^verbatim>\<open>allowedExits\<close> is unset is analysed as allowing North, South,
  East and West, so next to a neighbour that is open in return the side is a two-way exit.
  The code: \<^verbatim>\<open>hasExit\<close> answers \<open>False\<close> for every direction when the bitmask is unset. With a
  neighbour to the east that allows all four exits, the east side of such a room is
  \<open>OneWayBlocked\<close>; the same room with the default written out has a two-way \<open>Exit\<close> there.
\<close>

theorem unset_allowedExits_is_blocked:
  "\<not> hasExit (Some plain_room) NORTH \<and> \<not> hasExit (Some plain_room) SOUTH \<and>
   \<not> hasExit (Some plain_room) EAST \<and> \<not> hasExit (Some plain_room) WEST \<and>
   getRoomAt two_rooms 0 0 0 = Inr (Some plain_room) \<and>
   getRoomAt two_rooms 1 0 0 = Inr (Some (plain_room\<lparr>allowedExits := Some DEFAULT_ALLOWED_EXITS\<rparr>)) \<and>
   hasExit (Some (plain_room\<lparr>allowedExits := Some DEFAULT_ALLOWED_EXITS\<rparr>)) WEST \<and>
   getExitIndicators two_rooms 0 0 0
     = Inr \<lparr>north = Some Blocked, south = Some Blocked, east = Some OneWayBlocked,
            west = Some Blocked\<rparr> \<and>
   getExitIndicators
     (two_rooms\<lparr>rooms := Some [plain_room\<lparr>allowedExits := Some DEFAULT_ALLOWED_EXITS\<rparr>,
                                plain_room\<lparr>allowedExits := Some DEFAULT_ALLOWED_EXITS\<rparr>]\<rparr>) 0 0 0
     = Inr \<lparr>north = Some Blocked, south = Some Blocked, east = Some Exit, west = Some Blocked\<rparr>"
  by (simp add: hasExit_def plain_room_def two_rooms_def getExitIndicators_def getRoomAt_def
      roomIndex_at_def row_or_empty_def layer_or_empty_def layerIndex_def js_index_def
      room_side_def four_sides_def has_roomLink_def DEFAULT_ALLOWED_EXITS_def)

section \<open>Resets on an empty cell\<close>

text \<open>
  C3. The claim: adding a mob or object reset at a cell inside the dimensions that is empty
  (value \<open>0\<close>) is refused, through the single-cell \<^verbatim>\<open>addReset\<close> and through the placement over a
  selection. The code: \<^verbatim>\<open>placeTemplateInSelection\<close> tests \<^verbatim>\<open>roomIndex > 0\<close> ("only add reset if
  there's a room at this location") and leaves the resets alone, but \<^verbatim>\<open>addReset\<close> never reads
  the grid and appends the record. Evaluated on the empty one-cell document.
\<close>

theorem addReset_on_empty_cell:
  "roomIndex_at empty_1x1 0 0 0 = 0 \<and>
   resets (addReset ''crypt'' (Some ''rat'') 0 0 0 empty_1x1)
     = Some [new_reset ''rat'' ''@crypt{0,0,0}''] \<and>
   resets (placeTemplateInSelection ''crypt'' [(0, 0, 0)] (MobTemplate ''rat'') empty_1x1)
     = Some []"
  by code_simp

section \<open>Reset merge\<close>

lemma find_first_match:
  "i < length rs \<Longrightarrow> P (rs ! i) \<Longrightarrow> \<forall>j<i. \<not> P (rs ! j) \<Longrightarrow>
   find P rs = Some (rs ! i) \<and>
   increment_first P rs = rs[i := (rs ! i)\<lparr>maxCount := Some (or_one (maxCount (rs ! i)) + 1)\<rparr>]"
proof (induction rs arbitrary: i)
  case Nil
  then show ?case by simp
next
  case (Cons r rs)
  show ?case
  proof (cases i)
    case 0
    with Cons.prems show ?thesis by simp
  next
    case (Suc k)
    with Cons.prems have "\<not> P r" by auto
    moreover from Suc Cons.prems have "k < length rs" "P (rs ! k)" "\<forall>j<k. \<not> P (rs ! j)"
      by auto
    ultimately show ?thesis using Cons.IH [of k] Suc by simp
  qed
qed

lemma find_no_match: "\<forall>r\<in>set rs. \<not> P r \<Longrightarrow> find P rs = None"
  by (simp add: find_None_iff)

text \<open>
  C8, as the code has it. Among the resets of the document (none, when \<^verbatim>\<open>dungeon.resets\<close> is
  unset), let \<open>i\<close> be the first record with the room reference of \<open>(x, y, z)\<close> and the template
  id \<open>tid\<close>. Adding a reset for that pair, by \<^verbatim>\<open>addReset\<close> or by \<^verbatim>\<open>placeTemplateInSelection\<close>
  on a cell that holds a room, changes the list at position \<open>i\<close> only, and there only the
  field \<^verbatim>\<open>maxCount\<close>, which becomes \<^verbatim>\<open>(maxCount || 1) + 1\<close>: one more than the stored count when
  that is at least \<open>1\<close>. When no record has the pair, one record with both counts \<open>1\<close> is
  appended.
\<close>

theorem reset_merge_or_append:
  fixes dungeonId tid :: string and x y z :: int and dg :: dungeon
  defines "ref \<equiv> mkRoomRef dungeonId x y z"
  defines "rs \<equiv> (case resets dg of None \<Rightarrow> [] | Some l \<Rightarrow> l)"
  defines "same \<equiv> (\<lambda>r. roomRef r = ref \<and> templateId r = tid)"
  defines "bumped \<equiv> (\<lambda>i. rs[i := (rs ! i)\<lparr>maxCount := Some (or_one (maxCount (rs ! i)) + 1)\<rparr>])"
  shows "(\<forall>i<length rs. same (rs ! i) \<and> (\<forall>j<i. \<not> same (rs ! j)) \<longrightarrow>
            resets (addReset dungeonId (Some tid) x y z dg) = Some (bumped i) \<and>
            (0 < roomIndex_at dg x y z \<longrightarrow>
               resets (placeTemplateInSelection dungeonId [(x, y, z)] (MobTemplate tid) dg)
                 = Some (bumped i))) \<and>
         ((\<forall>r\<in>set rs. \<not> same r) \<longrightarrow>
            resets (addReset dungeonId (Some tid) x y z dg) = Some (rs @ [new_reset tid ref]) \<and>
            (0 < roomIndex_at dg x y z \<longrightarrow>
               resets (placeTemplateInSelection dungeonId [(x, y, z)] (MobTemplate tid) dg)
                 = Some (rs @ [new_reset tid ref]))) \<and>
         (\<forall>m. 0 < m \<longrightarrow> or_one (Some m) + 1 = m + 1) \<and>
         minCount (new_reset tid ref) = Some 1 \<and> maxCount (new_reset tid ref) = Some 1"
proof (intro conjI allI impI)
  fix i assume i: "i < length rs" and m: "same (rs ! i) \<and> (\<forall>j<i. \<not> same (rs ! j))"
  then have f: "find same rs = Some (rs ! i)" and inc: "increment_first same rs = bumped i"
    using find_first_match [of i rs same] by (simp_all add: bumped_def)
  from i have some: "resets dg = Some rs" by (auto simp: rs_def split: option.splits)
  show "resets (addReset dungeonId (Some tid) x y z dg) = Some (bumped i)"
    using f inc some by (simp add: addReset_def Let_def ref_def same_def)
  assume "0 < roomIndex_at dg x y z"
  then show "resets (placeTemplateInSelection dungeonId [(x, y, z)] (MobTemplate tid) dg)
      = Some (bumped i)"
    using f inc some
    by (simp add: placeTemplateInSelection_def place_in_cell_def place_reset_in_cell_def
        Let_def ref_def same_def)
next
  assume "\<forall>r\<in>set rs. \<not> same r"
  then have f: "find same rs = None" by (rule find_no_match)
  show "resets (addReset dungeonId (Some tid) x y z dg) = Some (rs @ [new_reset tid ref])"
    using f by (simp add: addReset_def Let_def ref_def same_def rs_def)
  assume "0 < roomIndex_at dg x y z"
  then show "resets (placeTemplateInSelection dungeonId [(x, y, z)] (MobTemplate tid) dg)
      = Some (rs @ [new_reset tid ref])"
    using f
    by (auto simp add: placeTemplateInSelection_def place_in_cell_def place_reset_in_cell_def
        Let_def ref_def same_def rs_def split: option.splits)
qed (simp_all add: new_reset_def)

theorem reset_merge_or_append_witness:
  "resets (addReset ''crypt'' (Some ''rat'') 0 0 0 (one_room_1x1 [rat_reset (Some 1) (Some 3)]))
     = Some [rat_reset (Some 1) (Some 4)] \<and>
   resets (placeTemplateInSelection ''crypt'' [(0, 0, 0)] (MobTemplate ''rat'')
             (one_room_1x1 [rat_reset (Some 1) (Some 3)]))
     = Some [rat_reset (Some 1) (Some 4)] \<and>
   resets (addReset ''crypt'' (Some ''bat'') 0 0 0 (one_room_1x1 [rat_reset (Some 1) (Some 3)]))
     = Some [rat_reset (Some 1) (Some 3), new_reset ''bat'' ''@crypt{0,0,0}''] \<and>
   resets (placeTemplateInSelection ''crypt'' [(0, 0, 0)] (MobTemplate ''bat'')
             (one_room_1x1 [rat_reset (Some 1) (Some 3)]))
     = Some [rat_reset (Some 1) (Some 3), new_reset ''bat'' ''@crypt{0,0,0}'']"
proof -
  let ?dg = "one_room_1x1 [rat_reset (Some 1) (Some 3)]"
  have ref: "mkRoomRef ''crypt'' 0 0 0 = ''@crypt{0,0,0}''" by code_simp
  have room: "0 < roomIndex_at ?dg 0 0 0" by code_simp
  have rs: "resets ?dg = Some [rat_reset (Some 1) (Some 3)]"
    by (simp add: one_room_1x1_def)
  note rat = reset_merge_or_append [of ?dg "''crypt''" 0 0 0 "''rat''", unfolded rs ref option.case]
  note bat = reset_merge_or_append [of ?dg "''crypt''" 0 0 0 "''bat''", unfolded rs ref option.case]
  from rat [THEN conjunct1, rule_format, of 0] room
  have a: "resets (addReset ''crypt'' (Some ''rat'') 0 0 0 ?dg) = Some [rat_reset (Some 1) (Some 4)]"
    and b: "resets (placeTemplateInSelection ''crypt'' [(0, 0, 0)] (MobTemplate ''rat'') ?dg)
      = Some [rat_reset (Some 1) (Some 4)]"
    by (simp_all add: rat_reset_def)
  from bat [THEN conjunct2, THEN conjunct1, rule_format] room
  have c: "resets (addReset ''crypt'' (Some ''bat'') 0 0 0 ?dg)
      = Some [rat_reset (Some 1) (Some 3), new_reset ''bat'' ''@crypt{0,0,0}'']"
    and d: "resets (placeTemplateInSelection ''crypt'' [(0, 0, 0)] (MobTemplate ''bat'') ?dg)
      = Some [rat_reset (Some 1) (Some 3), new_reset ''bat'' ''@crypt{0,0,0}'']"
    by (simp_all add: rat_reset_def)
  from a b c d show ?thesis by simp
qed

text \<open>
  C8, as the claim states it, fails on a record whose stored \<^verbatim>\<open>maxCount\<close> is \<open>0\<close>: the count
  becomes \<open>2\<close>, not \<open>0 + 1\<close>. A record without a \<^verbatim>\<open>maxCount\<close> gets the count \<open>2\<close> as well.
\<close>

theorem maxCount_zero_counterexample:
  "resets (one_room_1x1 [rat_reset (Some 0) (Some 0)]) = Some [rat_reset (Some 0) (Some 0)] \<and>
   resets (addReset ''crypt'' (Some ''rat'') 0 0 0 (one_room_1x1 [rat_reset (Some 0) (Some 0)]))
     = Some [rat_reset (Some 0) (Some 2)] \<and>
   resets (addReset ''crypt'' (Some ''rat'') 0 0 0 (one_room_1x1 [rat_reset (Some 0) (Some 0)]))
     \<noteq> Some [rat_reset (Some 0) (Some (0 + 1))] \<and>
   resets (addReset ''crypt'' (Some ''rat'') 0 0 0 (one_room_1x1 [rat_reset None None]))
     = Some [rat_reset None (Some 2)]"
  by code_simp

section \<open>Deleting a room template\<close>

lemma remove_resets_at_twice:
  "map_option (filter (\<lambda>r. roomRef r \<notin> R)) (remove_resets_at ref rs)
   = map_option (filter (\<lambda>r. roomRef r \<notin> insert ref R)) rs"
  by (cases rs) (auto simp: remove_resets_at_def intro: filter_cong)

lemma filter_refs_twice:
  "map_option (filter (\<lambda>r. roomRef r \<notin> B)) (map_option (filter (\<lambda>r. roomRef r \<notin> A)) rs)
   = map_option (filter (\<lambda>r. roomRef r \<notin> A \<union> B)) (rs :: reset list option)"
  by (cases rs) (auto intro: filter_cong)

lemma UN_lessThan_Cons:
  "(\<Union>i<length (a # as). G i ((a # as) ! i)) = G 0 a \<union> (\<Union>i<length as. G (Suc i) (as ! i))"
  by (simp add: lessThan_Suc_eq_insert_0 image_image del: UN_simps)

lemma clear_row_eq:
  "clear_row ref k x row rs =
     (map (\<lambda>v. if v = k then 0 else v) row,
      map_option (filter (\<lambda>r. roomRef r \<notin>
         (\<Union>i<length row. if row ! i = k then {ref (x + int i)} else {}))) rs)"
proof (induction row arbitrary: x rs)
  case Nil
  show ?case by (cases rs) simp_all
next
  case (Cons v row)
  have shift: "(\<Union>i<length (v # row). if (v # row) ! i = k then {ref (x + int i)} else {})
      = (if v = k then {ref x} else {})
        \<union> (\<Union>i<length row. if row ! i = k then {ref (x + 1 + int i)} else {})"
    using UN_lessThan_Cons [of "\<lambda>i w. if w = k then {ref (x + int i)} else {}" v row]
    by (simp add: algebra_simps)
  show ?case
    by (simp only: clear_row.simps Cons.IH shift remove_resets_at_twice split: if_splits)
       (cases rs; simp)
qed

lemma clear_layer_eq:
  "clear_layer ref k y layer rs =
     (map (map (\<lambda>v. if v = k then 0 else v)) layer,
      map_option (filter (\<lambda>r. roomRef r \<notin>
         (\<Union>j<length layer. \<Union>i<length (layer ! j).
            if layer ! j ! i = k then {ref (int i) (y + int j)} else {}))) rs)"
proof (induction layer arbitrary: y rs)
  case Nil
  show ?case by (cases rs) simp_all
next
  case (Cons row layer)
  have shift: "(\<Union>j<length (row # layer). \<Union>i<length ((row # layer) ! j).
            if (row # layer) ! j ! i = k then {ref (int i) (y + int j)} else {})
      = (\<Union>i<length row. if row ! i = k then {ref (0 + int i) y} else {})
        \<union> (\<Union>j<length layer. \<Union>i<length (layer ! j).
            if layer ! j ! i = k then {ref (int i) (y + 1 + int j)} else {})"
    using UN_lessThan_Cons [of "\<lambda>j w. \<Union>i<length w. if w ! i = k then {ref (int i) (y + int j)} else {}"
        row layer]
    by (simp add: algebra_simps)
  show ?case
    by (simp only: clear_layer.simps clear_row_eq Cons.IH shift filter_refs_twice
        prod.case list.map)
qed

lemma clear_grid_eq:
  "clear_grid dungeonId d k li g rs =
     (map (map (map (\<lambda>v. if v = k then 0 else v))) g,
      map_option (filter (\<lambda>r. roomRef r \<notin>
         (\<Union>l<length g. \<Union>j<length (g ! l). \<Union>i<length (g ! l ! j).
            if g ! l ! j ! i = k
            then {mkRoomRef dungeonId (int i) (int j) (layers d - 1 - (li + int l))} else {}))) rs)"
proof (induction g arbitrary: li rs)
  case Nil
  show ?case by (cases rs) simp_all
next
  case (Cons layer g)
  have shift: "(\<Union>l<length (layer # g). \<Union>j<length ((layer # g) ! l). \<Union>i<length ((layer # g) ! l ! j).
            if (layer # g) ! l ! j ! i = k
            then {mkRoomRef dungeonId (int i) (int j) (layers d - 1 - (li + int l))} else {})
      = (\<Union>j<length layer. \<Union>i<length (layer ! j).
            if layer ! j ! i = k
            then {mkRoomRef dungeonId (int i) (0 + int j) (layers d - 1 - li)} else {})
        \<union> (\<Union>l<length g. \<Union>j<length (g ! l). \<Union>i<length (g ! l ! j).
            if g ! l ! j ! i = k
            then {mkRoomRef dungeonId (int i) (int j) (layers d - 1 - (li + 1 + int l))} else {})"
    using UN_lessThan_Cons [of "\<lambda>l w. \<Union>j<length w. \<Union>i<length (w ! j).
            if w ! j ! i = k
            then {mkRoomRef dungeonId (int i) (int j) (layers d - 1 - (li + int l))} else {}"
        layer g]
    by (simp add: algebra_simps)
  show ?case
    by (simp only: clear_grid.simps clear_layer_eq Cons.IH shift filter_refs_twice
        prod.case list.map)
qed

lemma cleared_refs_cell_value:
  "(s \<in> (\<Union>l<length (grid dg). \<Union>j<length (grid dg ! l). \<Union>i<length (grid dg ! l ! j).
            if grid dg ! l ! j ! i = k
            then {mkRoomRef dungeonId (int i) (int j) (layers (dimensions dg) - 1 - (0 + int l))}
            else {}))
   \<longleftrightarrow> (\<exists>x y z. cell_value dg x y z = Some k \<and> s = mkRoomRef dungeonId x y z)"
  (is "?L \<longleftrightarrow> ?R")
proof
  assume ?L
  then obtain l j i where b: "l < length (grid dg)" "j < length (grid dg ! l)"
      "i < length (grid dg ! l ! j)" and v: "grid dg ! l ! j ! i = k"
      and s: "s = mkRoomRef dungeonId (int i) (int j) (layers (dimensions dg) - 1 - int l)"
    by (auto split: if_splits)
  from b v have "cell_value dg (int i) (int j) (layers (dimensions dg) - 1 - int l) = Some k"
    by (simp add: cell_value_def layerIndex_def js_index_def)
  with s show ?R by blast
next
  assume ?R
  then obtain x y z where c: "cell_value dg x y z = Some k" and s: "s = mkRoomRef dungeonId x y z"
    by blast
  let ?li = "layers (dimensions dg) - 1 - z"
  from c have l: "0 \<le> ?li" "nat ?li < length (grid dg)"
    and y: "0 \<le> y" "nat y < length (grid dg ! nat ?li)"
    and x: "0 \<le> x" "nat x < length (grid dg ! nat ?li ! nat y)"
    and v: "grid dg ! nat ?li ! nat y ! nat x = k"
    by (auto simp: cell_value_def layerIndex_def js_index_def split: if_splits option.splits)
  from l y x v have m: "s \<in> (if grid dg ! nat ?li ! nat y ! nat x = k
      then {mkRoomRef dungeonId (int (nat x)) (int (nat y))
              (layers (dimensions dg) - 1 - (0 + int (nat ?li)))} else {})"
    by (simp add: s)
  from l(2) have l': "nat ?li \<in> {..<length (grid dg)}" by simp
  from y(2) have y': "nat y \<in> {..<length (grid dg ! nat ?li)}" by simp
  from x(2) have x': "nat x \<in> {..<length (grid dg ! nat ?li ! nat y)}" by simp
  show ?L by (rule UN_I [OF l'], rule UN_I [OF y'], rule UN_I [OF x'], rule m)
qed

text \<open>
  C7. Deleting the room template at index \<open>roomIndex\<close> takes it out of the room list, sets
  every grid cell of value \<open>roomIndex + 1\<close> to \<open>0\<close>, removes exactly the resets whose room
  reference is the coordinate of such a cell, and lowers every grid value above
  \<open>roomIndex + 1\<close> by one. Dimensions and mob and object templates stay as they are.
\<close>

theorem deleteTemplate_room:
  assumes "rooms dg = Some rms" and "roomIndex < length rms"
  shows "rooms (deleteTemplate dungeonId (RoomTemplate roomIndex) dg)
           = Some (take roomIndex rms @ drop (Suc roomIndex) rms) \<and>
         grid (deleteTemplate dungeonId (RoomTemplate roomIndex) dg)
           = map (map (map (\<lambda>v. if v = roomIndex + 1 then 0
                                  else if v > roomIndex + 1 then v - 1 else v))) (grid dg) \<and>
         resets (deleteTemplate dungeonId (RoomTemplate roomIndex) dg)
           = map_option (filter (\<lambda>r. \<not> (\<exists>x y z. cell_value dg x y z = Some (roomIndex + 1) \<and>
                                        roomRef r = mkRoomRef dungeonId x y z))) (resets dg) \<and>
         dimensions (deleteTemplate dungeonId (RoomTemplate roomIndex) dg) = dimensions dg \<and>
         templates (deleteTemplate dungeonId (RoomTemplate roomIndex) dg) = templates dg"
proof -
  have g: "map (map (map (\<lambda>v. if v > roomIndex + 1 then v - 1 else v)))
             (map (map (map (\<lambda>v. if v = roomIndex + 1 then 0 else v))) (grid dg))
           = map (map (map (\<lambda>v. if v = roomIndex + 1 then 0
                                  else if v > roomIndex + 1 then v - 1 else v))) (grid dg)"
    by (simp add: comp_def)
  show ?thesis
    using assms
    by (simp add: deleteTemplate_def clear_grid_eq g cleared_refs_cell_value [symmetric])
qed

text \<open>
  The instance of the claim: rooms A, B, C, a cell of value \<open>3\<close> and a cell of value \<open>2\<close>;
  deleting B leaves rooms A, C, turns the \<open>3\<close> into \<open>2\<close>, empties the B cell and removes the two
  resets of the B cell.
\<close>

theorem deleteTemplate_room_witness:
  "rooms (deleteTemplate ''crypt'' (RoomTemplate 1) abc_dungeon)
     = Some [named_room ''A'', named_room ''C''] \<and>
   grid (deleteTemplate ''crypt'' (RoomTemplate 1) abc_dungeon) = [[[2, 0]]] \<and>
   resets (deleteTemplate ''crypt'' (RoomTemplate 1) abc_dungeon)
     = Some [reset_at ''rat'' ''@crypt{0,0,0}'']"
proof -
  have len: "1 < length [named_room ''A'', named_room ''B'', named_room ''C'']" by simp
  have r: "rooms abc_dungeon = Some [named_room ''A'', named_room ''B'', named_room ''C'']"
    and g: "grid abc_dungeon = [[[3, 2]]]"
    by (simp_all add: abc_dungeon_def)
  have rs: "resets (deleteTemplate ''crypt'' (RoomTemplate 1) abc_dungeon)
     = Some [reset_at ''rat'' ''@crypt{0,0,0}'']" by code_simp
  from deleteTemplate_room [OF r len, of "''crypt''"] rs show ?thesis
    by (simp add: g)
qed



section \<open>Deleting a mob or object template\<close>

lemma remove_first_index:
  "find P ts = Some t \<Longrightarrow>
   \<exists>i<length ts. P (ts ! i) \<and> (\<forall>j<i. \<not> P (ts ! j)) \<and>
     remove_first P ts = take i ts @ drop (Suc i) ts"
proof (induction ts)
  case Nil
  then show ?case by simp
next
  case (Cons a ts)
  show ?case
  proof (cases "P a")
    case True
    then have "0 < length (a # ts) \<and> P ((a # ts) ! 0) \<and> (\<forall>j<0. \<not> P ((a # ts) ! j)) \<and>
        remove_first P (a # ts) = take 0 (a # ts) @ drop (Suc 0) (a # ts)"
      by simp
    then show ?thesis by blast
  next
    case False
    with Cons.prems have "find P ts = Some t" by simp
    from Cons.IH [OF this] obtain i where i: "i < length ts" "P (ts ! i)" "\<forall>j<i. \<not> P (ts ! j)"
        "remove_first P ts = take i ts @ drop (Suc i) ts"
      by blast
    have "\<forall>j<Suc i. \<not> P ((a # ts) ! j)"
    proof (intro allI impI)
      fix j assume "j < Suc i"
      then show "\<not> P ((a # ts) ! j)" using False i(3) by (cases j) auto
    qed
    with i False
    have "Suc i < length (a # ts) \<and> P ((a # ts) ! Suc i) \<and> (\<forall>j<Suc i. \<not> P ((a # ts) ! j)) \<and>
        remove_first P (a # ts) = take (Suc i) (a # ts) @ drop (Suc (Suc i)) (a # ts)"
      by simp
    then show ?thesis by blast
  qed
qed

lemma remove_first_distinct:
  "distinct (map f ts) \<Longrightarrow> a \<notin> f ` set (remove_first (\<lambda>t. f t = a) ts)"
  by (induction ts) auto

text \<open>
  C10. Deleting a mob or object template by an id that the template list holds takes the first
  template of that id out of the list and removes every reset of that template id; the grid,
  the rooms, the dimensions and the resets of other template ids stay. Afterwards no reset
  names the id, and when ids are unique no template has it either.
\<close>

theorem deleteTemplate_mob_object:
  assumes ts: "templates dg = Some ts"
    and ex: "tid \<in> id_t ` set ts"
    and p: "p = MobTemplate tid \<or> p = ObjectTemplate tid"
  shows "(\<exists>i<length ts. id_t (ts ! i) = tid \<and> (\<forall>j<i. id_t (ts ! j) \<noteq> tid) \<and>
            templates (deleteTemplate dungeonId p dg) = Some (take i ts @ drop (Suc i) ts)) \<and>
         resets (deleteTemplate dungeonId p dg)
           = map_option (filter (\<lambda>r. templateId r \<noteq> tid)) (resets dg) \<and>
         grid (deleteTemplate dungeonId p dg) = grid dg \<and>
         rooms (deleteTemplate dungeonId p dg) = rooms dg \<and>
         dimensions (deleteTemplate dungeonId p dg) = dimensions dg \<and>
         (\<forall>rs. resets (deleteTemplate dungeonId p dg) = Some rs \<longrightarrow> tid \<notin> templateId ` set rs) \<and>
         (distinct (map id_t ts) \<longrightarrow>
            (\<forall>ts'. templates (deleteTemplate dungeonId p dg) = Some ts' \<longrightarrow> tid \<notin> id_t ` set ts'))"
proof -
  from ex obtain t where f: "find (\<lambda>t. id_t t = tid) ts = Some t"
    by (cases "find (\<lambda>t. id_t t = tid) ts") (auto simp: find_None_iff)
  have d: "deleteTemplate dungeonId p dg =
      dg\<lparr>resets := map_option (filter (\<lambda>r. templateId r \<noteq> tid)) (resets dg),
         templates := Some (remove_first (\<lambda>t. id_t t = tid) ts)\<rparr>"
    using p ts f by (auto simp: deleteTemplate_def)
  from remove_first_index [OF f] obtain i where i: "i < length ts" "id_t (ts ! i) = tid"
      "\<forall>j<i. id_t (ts ! j) \<noteq> tid"
      "remove_first (\<lambda>t. id_t t = tid) ts = take i ts @ drop (Suc i) ts"
    by blast
  have "\<exists>i<length ts. id_t (ts ! i) = tid \<and> (\<forall>j<i. id_t (ts ! j) \<noteq> tid) \<and>
      templates (deleteTemplate dungeonId p dg) = Some (take i ts @ drop (Suc i) ts)"
    using i d by auto
  moreover have "\<forall>rs. resets (deleteTemplate dungeonId p dg) = Some rs \<longrightarrow> tid \<notin> templateId ` set rs"
    by (auto simp: d)
  moreover have "distinct (map id_t ts) \<longrightarrow>
      (\<forall>ts'. templates (deleteTemplate dungeonId p dg) = Some ts' \<longrightarrow> tid \<notin> id_t ` set ts')"
    using remove_first_distinct [of id_t ts tid] by (simp add: d)
  ultimately show ?thesis by (simp add: d)
qed

theorem deleteTemplate_mob_object_witness:
  "templates (deleteTemplate ''crypt'' (MobTemplate ''rat'') abc_dungeon)
     = Some [\<lparr>id_t = ''bat'', type_t = ''Mob'', display_t = ''Bat''\<rparr>] \<and>
   resets (deleteTemplate ''crypt'' (MobTemplate ''rat'') abc_dungeon)
     = Some [reset_at ''bat'' ''@crypt{1,0,0}''] \<and>
   grid (deleteTemplate ''crypt'' (MobTemplate ''rat'') abc_dungeon) = [[[3, 2]]] \<and>
   rooms (deleteTemplate ''crypt'' (MobTemplate ''rat'') abc_dungeon)
     = Some [named_room ''A'', named_room ''B'', named_room ''C'']"
proof -
  let ?ts = "[\<lparr>id_t = ''rat'', type_t = ''Mob'', display_t = ''Rat''\<rparr>,
              \<lparr>id_t = ''bat'', type_t = ''Mob'', display_t = ''Bat''\<rparr>]"
  have ts: "templates abc_dungeon = Some ?ts" by (simp add: abc_dungeon_def)
  have ex: "''rat'' \<in> id_t ` set ?ts" by simp
  have t: "templates (deleteTemplate ''crypt'' (MobTemplate ''rat'') abc_dungeon)
     = Some [\<lparr>id_t = ''bat'', type_t = ''Mob'', display_t = ''Bat''\<rparr>]" by code_simp
  from deleteTemplate_mob_object [OF ts ex, of "MobTemplate ''rat''" "''crypt''"] t
  show ?thesis by (simp add: abc_dungeon_def reset_at_def)
qed

section \<open>Copy and paste at the same anchor\<close>











section \<open>Paint place: the flood fill\<close>


































section \<open>Undo and redo\<close>

















lemma placeRoomTemplate_handler_mutation:
  "yamlData e \<noteq> None \<Longrightarrow> selectedTemplate e \<noteq> None \<Longrightarrow>
   placeRoomTemplate_handler x y z e = mutation (apply_placeRoomTemplate x y z) e"
  by (auto simp add: placeRoomTemplate_handler_def mutation_def)




section \<open>History entries and the live document\<close>

text \<open>
  C2. The claim: restoring a snapshot installs a deep copy, so no edit after a restore changes
  an entry of the history. The code: \<^verbatim>\<open>restoreStateFromHistory\<close> assigns the objects of the
  entry to the live document. After one placement and one undo the live grid is the grid of
  entry \<open>0\<close>; the next placement writes into it, entry \<open>0\<close> changes from \<open>[0, 0]\<close> to \<open>[0, 1]\<close>,
  and the undo that follows shows \<open>[0, 1]\<close>, the placement it should have taken back.
\<close>

theorem history_entry_changed_after_restore:
  "map_option grid_ref (yamlData (undo (placeRoomTemplate_handler 0 0 0 loaded_two_cells)))
     = Some (grid_ref (history (undo (placeRoomTemplate_handler 0 0 0 loaded_two_cells)) ! 0)) \<and>
   map grid (history_docs (undo (placeRoomTemplate_handler 0 0 0 loaded_two_cells)))
     = [[[[0, 0]]], [[[0, 0]]]] \<and>
   map grid (history_docs (placeRoomTemplate_handler 1 0 0
               (undo (placeRoomTemplate_handler 0 0 0 loaded_two_cells))))
     = [[[[0, 1]]], [[[0, 0]]]] \<and>
   map_option grid (live_doc (undo (placeRoomTemplate_handler 1 0 0
               (undo (placeRoomTemplate_handler 0 0 0 loaded_two_cells)))))
     = Some [[[0, 1]]]"
  by code_simp

end
